theory Spec2Isabelle
  imports Main
begin

section \<open>The CPU detector of vllm-cpu-detect (src/cpu_detect/vllm_cpu_detect.py)\<close>

text \<open>
  The class \<open>CPUDetector\<close> holds three fields: \<open>machine\<close> and \<open>system\<close>, read once from
  the platform, and the dictionary \<open>features\<close>. The methods are embedded as functions of
  these values. The names that the code compares with ASCII literals only (the platform
  strings, the keys of the dictionary, the package names) are of type \<^typ>\<open>string\<close>; the
  dictionary \<open>Dict[str, bool]\<close> is a map from strings to booleans.
\<close>

subsection \<open>Strings: \<open>str.lower\<close> and the substring test \<open>in\<close>\<close>

text \<open>
  A text that the detector reads is a Python \<open>str\<close>, a sequence of Unicode code points.
  Inside ASCII \<open>str.lower\<close> maps the letters \<open>A\<close> to \<open>Z\<close> to \<open>a\<close> to \<open>z\<close> and leaves every
  other character alone. What it puts in the place of a character outside ASCII is decided
  by the Unicode tables of the interpreter, and for U+03A3 by the neighbours of the
  character; it may be several code points (U+0130 becomes U+0069 U+0307). A character of
  a text therefore comes with that result: \<open>PyChar c l\<close> is the code point \<open>c\<close>, and \<open>l\<close>
  are the code points that \<open>str.lower\<close> puts in its place when \<open>c\<close> is outside ASCII.
\<close>

datatype pychar = PyChar (code: nat) (lowered: "nat list")

type_synonym pystr = "pychar list"

text \<open>The text of an ASCII literal, and the code points of a literal.\<close>

definition asc :: "string \<Rightarrow> pystr" where
  "asc s = map (\<lambda>c. PyChar (of_char c) []) s"

definition codes :: "string \<Rightarrow> nat list" where
  "codes s = map of_char s"

definition lower_char :: "pychar \<Rightarrow> nat list" where
  "lower_char c =
     (if code c < 128 then [if 65 \<le> code c \<and> code c \<le> 90 then code c + 32 else code c]
      else lowered c)"

text \<open>\<open>lower s\<close> are the code points of \<open>s.lower()\<close>.\<close>

definition lower :: "pystr \<Rightarrow> nat list" where
  "lower s = concat (map lower_char s)"

text \<open>\<open>starts_with sub s\<close>: the sequence \<open>s\<close> begins with \<open>sub\<close>.\<close>

fun starts_with :: "'a list \<Rightarrow> 'a list \<Rightarrow> bool" where
  "starts_with [] s = True"
| "starts_with (a # sub) [] = False"
| "starts_with (a # sub) (c # s) = (a = c \<and> starts_with sub s)"

text \<open>\<open>str_in sub s\<close> is Python's \<open>sub in s\<close> on strings: \<open>sub\<close> occurs in \<open>s\<close> as a
  contiguous run of characters.\<close>

fun str_in :: "'a list \<Rightarrow> 'a list \<Rightarrow> bool" where
  "str_in sub [] = (sub = [])"
| "str_in sub (c # s) = (starts_with sub (c # s) \<or> str_in sub s)"

subsection \<open>The feature dictionary\<close>

type_synonym features = "string \<rightharpoonup> bool"

text \<open>\<open>truthy (features.get(k))\<close>: \<open>dict.get\<close> gives \<open>None\<close> for a missing key, which
  an \<open>if\<close> takes as false, like the value \<open>False\<close>.\<close>

definition get_truthy :: "features \<Rightarrow> string \<Rightarrow> bool" where
  "get_truthy fs k = (case fs k of None \<Rightarrow> False | Some b \<Rightarrow> b)"

subsection \<open>\<open>recommend_package\<close>\<close>

definition recommend_package :: "string \<Rightarrow> features \<Rightarrow> string" where
  "recommend_package machine fs =
     (if machine \<in> set [''aarch64'', ''arm64''] then ''vllm-cpu''
      else if machine = ''x86_64'' then
        (if get_truthy fs ''amx_bf16'' \<and> get_truthy fs ''avx512_bf16''
              \<and> get_truthy fs ''avx512_vnni'' then ''vllm-cpu-amxbf16''
         else if get_truthy fs ''avx512_bf16'' \<and> get_truthy fs ''avx512_vnni''
           then ''vllm-cpu-avx512bf16''
         else if get_truthy fs ''avx512_vnni'' then ''vllm-cpu-avx512vnni''
         else if get_truthy fs ''avx512f'' then ''vllm-cpu-avx512''
         else ''vllm-cpu'')
      else ''vllm-cpu'')"

text \<open>The catalog that \<open>print_report\<close> lists, with its descriptions.\<close>

definition packages :: "(string \<times> string) list" where
  "packages =
     [(''vllm-cpu'', ''Base package (no AVX512, supports ARM64 & x86_64)''),
      (''vllm-cpu-avx512'', ''AVX512 optimized (Intel Skylake-X and newer)''),
      (''vllm-cpu-avx512vnni'', ''AVX512 + VNNI (Intel Cascade Lake and newer)''),
      (''vllm-cpu-avx512bf16'', ''AVX512 + VNNI + BF16 (Intel Cooper Lake and newer)''),
      (''vllm-cpu-amxbf16'',
         ''AVX512 + VNNI + BF16 + AMX (Intel Sapphire Rapids and newer)'')]"

subsection \<open>Outcomes of the host calls\<close>

text \<open>
  What the host gives back is an input of the model. Opening and reading a file either
  gives its text, or raises \<open>FileNotFoundError\<close>, or raises something else;
  \<open>subprocess.run\<close> either completes with a return code and the captured standard output,
  or raises \<open>subprocess.TimeoutExpired\<close>, or \<open>FileNotFoundError\<close> (no such command), or
  something else. The exceptions that no \<open>except\<close> clause of the detector names are
  values of \<open>py_error\<close>; a function that lets one through returns it as \<open>Inl\<close>.
\<close>

datatype py_error = PermissionError | UnicodeDecodeError | OtherOSError | IndexError

datatype file_source = FileText pystr | FileNotFoundError | FileRaises py_error

datatype run_result =
    Completed int pystr
  | TimeoutExpired
  | CommandNotFound
  | RunRaises py_error

subsection \<open>\<open>_detect_linux\<close>\<close>

definition linux_features :: features where
  "linux_features =
     [''avx512f'' \<mapsto> False, ''avx512_vnni'' \<mapsto> False, ''avx512_bf16'' \<mapsto> False,
      ''amx_bf16'' \<mapsto> False, ''amx_tile'' \<mapsto> False, ''amx_int8'' \<mapsto> False]"

text \<open>The six tests on the text of \<open>/proc/cpuinfo\<close>, in the order of the source.\<close>

definition check_cpuinfo :: "pystr \<Rightarrow> features \<Rightarrow> features" where
  "check_cpuinfo text fs =
     (let cpuinfo = lower text;
          fs = (if str_in (codes ''avx512f'') cpuinfo then fs(''avx512f'' \<mapsto> True) else fs);
          fs = (if str_in (codes ''avx512_vnni'') cpuinfo \<or> str_in (codes ''avx512vnni'') cpuinfo
                then fs(''avx512_vnni'' \<mapsto> True) else fs);
          fs = (if str_in (codes ''avx512_bf16'') cpuinfo \<or> str_in (codes ''avx512bf16'') cpuinfo
                then fs(''avx512_bf16'' \<mapsto> True) else fs);
          fs = (if str_in (codes ''amx_bf16'') cpuinfo then fs(''amx_bf16'' \<mapsto> True) else fs);
          fs = (if str_in (codes ''amx_tile'') cpuinfo then fs(''amx_tile'' \<mapsto> True) else fs);
          fs = (if str_in (codes ''amx_int8'') cpuinfo then fs(''amx_int8'' \<mapsto> True) else fs)
      in fs)"

text \<open>The four tests on the output of \<open>lscpu\<close>.\<close>

definition check_lscpu :: "pystr \<Rightarrow> features \<Rightarrow> features" where
  "check_lscpu stdout fs =
     (let lscpu_output = lower stdout;
          fs = (if str_in (codes ''avx512f'') lscpu_output then fs(''avx512f'' \<mapsto> True) else fs);
          fs = (if str_in (codes ''avx512_vnni'') lscpu_output \<or> str_in (codes ''avx512vnni'') lscpu_output
                then fs(''avx512_vnni'' \<mapsto> True) else fs);
          fs = (if str_in (codes ''avx512_bf16'') lscpu_output \<or> str_in (codes ''avx512bf16'') lscpu_output
                then fs(''avx512_bf16'' \<mapsto> True) else fs);
          fs = (if str_in (codes ''amx_bf16'') lscpu_output then fs(''amx_bf16'' \<mapsto> True) else fs)
      in fs)"

text \<open>The first \<open>try\<close> block: \<open>FileNotFoundError\<close> is caught (and reported as
  "Could not read /proc/cpuinfo"), the dictionary stays as it is.\<close>

fun try_cpuinfo :: "file_source \<Rightarrow> features \<Rightarrow> py_error + features" where
  "try_cpuinfo (FileText text) fs = Inr (check_cpuinfo text fs)"
| "try_cpuinfo FileNotFoundError fs = Inr fs"
| "try_cpuinfo (FileRaises e) fs = Inl e"

text \<open>The second \<open>try\<close> block: the output is looked at only when the return code is 0;
  \<open>TimeoutExpired\<close> and \<open>FileNotFoundError\<close> are caught and passed over.\<close>

fun try_lscpu :: "run_result \<Rightarrow> features \<Rightarrow> py_error + features" where
  "try_lscpu (Completed returncode stdout) fs =
     Inr (if returncode = 0 then check_lscpu stdout fs else fs)"
| "try_lscpu TimeoutExpired fs = Inr fs"
| "try_lscpu CommandNotFound fs = Inr fs"
| "try_lscpu (RunRaises e) fs = Inl e"

definition detect_linux :: "file_source \<Rightarrow> run_result \<Rightarrow> py_error + features" where
  "detect_linux cpuinfo lscpu =
     (case try_cpuinfo cpuinfo linux_features of
        Inl e \<Rightarrow> Inl e
      | Inr fs \<Rightarrow> try_lscpu lscpu fs)"

subsection \<open>\<open>_detect_macos\<close> and \<open>_detect_windows\<close>\<close>

definition macos_features :: features where
  "macos_features =
     [''avx512f'' \<mapsto> False, ''avx512_vnni'' \<mapsto> False, ''avx512_bf16'' \<mapsto> False,
      ''amx_bf16'' \<mapsto> False]"

fun detect_macos :: "run_result \<Rightarrow> py_error + features" where
  "detect_macos (Completed returncode stdout) =
     Inr (if returncode = 0 then
            (let sysctl_output = lower stdout in
             if str_in (codes ''avx512'') sysctl_output then macos_features(''avx512f'' \<mapsto> True)
             else macos_features)
          else macos_features)"
| "detect_macos TimeoutExpired = Inr macos_features"
| "detect_macos CommandNotFound = Inr macos_features"
| "detect_macos (RunRaises e) = Inl e"

definition detect_windows :: "py_error + features" where
  "detect_windows =
     Inr [''avx512f'' \<mapsto> False, ''avx512_vnni'' \<mapsto> False, ''avx512_bf16'' \<mapsto> False,
          ''amx_bf16'' \<mapsto> False]"

subsection \<open>\<open>detect\<close>\<close>

text \<open>The host as one run sees it: the platform strings (\<open>platform.system()\<close>,
  \<open>platform.machine()\<close>, \<open>platform.processor()\<close>), the file \<open>/proc/cpuinfo\<close>, and what
  running \<open>lscpu\<close> and \<open>sysctl -a\<close> gives.\<close>

record host =
  system :: string
  machine :: string
  processor :: pystr
  cpuinfo :: file_source
  lscpu :: run_result
  sysctl :: run_result

text \<open>\<open>detect h\<close> is the field \<open>features\<close> after the call of \<open>detect\<close>. On an unsupported
  system nothing is assigned and the field keeps the empty dictionary of \<open>__init__\<close>.\<close>

definition detect :: "host \<Rightarrow> py_error + features" where
  "detect h =
     (if system h = ''Linux'' then detect_linux (cpuinfo h) (lscpu h)
      else if system h = ''Darwin'' then detect_macos (sysctl h)
      else if system h = ''Windows'' then detect_windows
      else Inr Map.empty)"

subsection \<open>\<open>get_cpu_info\<close> and \<open>print_report\<close>\<close>

text \<open>Iterating over a text file gives its lines, each with its newline.\<close>

fun lines_of :: "pystr \<Rightarrow> pystr list" where
  "lines_of [] = []"
| "lines_of (c # s) =
     (if code c = 10 then [c] # lines_of s
      else (case lines_of s of [] \<Rightarrow> [[c]] | l # ls \<Rightarrow> (c # l) # ls))"

text \<open>\<open>split_on d s\<close> is \<open>s.split(d)\<close> for a separator \<open>d\<close> of one character.\<close>

fun split_on :: "nat \<Rightarrow> pystr \<Rightarrow> pystr list" where
  "split_on d [] = [[]]"
| "split_on d (c # s) =
     (if code c = d then [] # split_on d s
      else (case split_on d s of [] \<Rightarrow> [[c]] | l # ls \<Rightarrow> (c # l) # ls))"

text \<open>\<open>str.strip()\<close> removes the white space at both ends: the code points for which
  \<open>str.isspace\<close> holds.\<close>

definition is_space :: "nat \<Rightarrow> bool" where
  "is_space n \<longleftrightarrow>
     n \<in> set [0x09, 0x0A, 0x0B, 0x0C, 0x0D, 0x1C, 0x1D, 0x1E, 0x1F, 0x20, 0x85, 0xA0, 0x1680]
     \<or> (0x2000 \<le> n \<and> n \<le> 0x200A)
     \<or> n \<in> set [0x2028, 0x2029, 0x202F, 0x205F, 0x3000]"

definition strip :: "pystr \<Rightarrow> pystr" where
  "strip s =
     rev (dropWhile (\<lambda>c. is_space (code c)) (rev (dropWhile (\<lambda>c. is_space (code c)) s)))"

text \<open>On Linux the first line of \<open>/proc/cpuinfo\<close> that starts with \<open>model name\<close> gives the
  model: \<open>line.split(":")[1].strip()\<close>, an \<open>IndexError\<close> when the line has no colon. A
  missing file is passed over. Otherwise the model is \<open>platform.processor()\<close>, or
  \<open>Unknown CPU\<close> when that is empty.\<close>

definition get_cpu_info :: "host \<Rightarrow> py_error + pystr" where
  "get_cpu_info h =
     (let fallback = Inr (if processor h = [] then asc ''Unknown CPU'' else processor h) in
      if system h = ''Linux'' then
        (case cpuinfo h of
           FileText text \<Rightarrow>
             (case find (\<lambda>line. starts_with (codes ''model name'') (map code line))
                     (lines_of text) of
                Some line \<Rightarrow>
                  (case split_on 58 line of
                     _ # field # _ \<Rightarrow> Inr (strip field)
                   | _ \<Rightarrow> Inl IndexError)
              | None \<Rightarrow> fallback)
         | FileNotFoundError \<Rightarrow> fallback
         | FileRaises e \<Rightarrow> Inl e)
      else fallback)"

text \<open>\<open>print_report\<close> writes the report to the standard output and changes no field. The
  text it writes is not part of the model; of its steps only \<open>get_cpu_info\<close> can raise.\<close>

definition print_report :: "host \<Rightarrow> py_error + unit" where
  "print_report h = (case get_cpu_info h of Inl e \<Rightarrow> Inl e | Inr model \<Rightarrow> Inr ())"

subsection \<open>\<open>main\<close>\<close>

text \<open>The exit code of \<open>main\<close>. A dictionary is true in a condition when it has at
  least one key.\<close>

definition main :: "host \<Rightarrow> py_error + int" where
  "main h =
     (case detect h of
        Inl e \<Rightarrow> Inl e
      | Inr fs \<Rightarrow>
          (case print_report h of
             Inl e \<Rightarrow> Inl e
           | Inr u \<Rightarrow>
               Inr (if fs \<noteq> Map.empty \<or> machine h \<in> set [''aarch64'', ''arm64'']
                    then 0 else 1)))"

subsection \<open>The merge of the specification\<close>

text \<open>
  The source has no merge function; each data source sets flags to \<open>True\<close> in the same
  dictionary. \<open>merge_spec\<close> is the operation the specification names: the union of two
  feature sets, flag by flag with logical or, a flag that is absent counting as false.
\<close>

definition merge_spec :: "features \<Rightarrow> features \<Rightarrow> features" where
  "merge_spec fs gs =
     (\<lambda>k. case (fs k, gs k) of
            (None, None) \<Rightarrow> None
          | _ \<Rightarrow> Some (get_truthy fs k \<or> get_truthy gs k))"

subsection \<open>Spellings that differ in case\<close>

text \<open>Two ASCII code points are the same letter in upper or lower case, or equal.\<close>

definition same_ignoring_case :: "nat \<Rightarrow> nat \<Rightarrow> bool" where
  "same_ignoring_case a b \<longleftrightarrow>
     a = b \<or> (65 \<le> a \<and> a \<le> 90 \<and> b = a + 32) \<or> (65 \<le> b \<and> b \<le> 90 \<and> a = b + 32)"

text \<open>\<open>spelled m tok\<close>: the run of characters \<open>m\<close> spells the token \<open>tok\<close>, character by
  character, in some mix of upper and lower case.\<close>

definition spelled :: "pystr \<Rightarrow> string \<Rightarrow> bool" where
  "spelled m tok \<longleftrightarrow> list_all2 (\<lambda>c t. same_ignoring_case (code c) (of_char t)) m tok"

section \<open>Facts about the string tests and the two scans\<close>

text \<open>\<open>starts_with\<close> and \<open>str_in\<close> are the prefix and the substring relation.\<close>

lemma starts_with_iff: "starts_with sub s \<longleftrightarrow> (\<exists>q. s = sub @ q)"
  by (induction sub s rule: starts_with.induct) auto

lemma str_in_iff: "str_in sub s \<longleftrightarrow> (\<exists>p q. s = p @ sub @ q)"
proof (induction s)
  case Nil
  show ?case by auto
next
  case (Cons c s)
  show ?case
  proof
    assume "str_in sub (c # s)"
    then consider "starts_with sub (c # s)" | "str_in sub s" by auto
    then show "\<exists>p q. c # s = p @ sub @ q"
    proof cases
      case 1
      then obtain q where "c # s = sub @ q" by (auto simp: starts_with_iff)
      then have "c # s = [] @ sub @ q" by simp
      then show ?thesis by blast
    next
      case 2
      then obtain p q where "s = p @ sub @ q" using Cons.IH by blast
      then have "c # s = (c # p) @ sub @ q" by simp
      then show ?thesis by blast
    qed
  next
    assume "\<exists>p q. c # s = p @ sub @ q"
    then obtain p q where pq: "c # s = p @ sub @ q" by blast
    show "str_in sub (c # s)"
    proof (cases p)
      case Nil
      with pq have "starts_with sub (c # s)" by (auto simp: starts_with_iff)
      then show ?thesis by simp
    next
      case (Cons a p')
      with pq have "s = p' @ sub @ q" by simp
      then have "str_in sub s" using Cons.IH by blast
      then show ?thesis by simp
    qed
  qed
qed

text \<open>Searching for the code points of a literal among the code points of another is
  searching for the literal itself.\<close>

lemma starts_with_map:
  "inj f \<Longrightarrow> starts_with (map f a) (map f b) = starts_with a b"
  by (induction a b rule: starts_with.induct) (auto dest: injD)

lemma str_in_map: "inj f \<Longrightarrow> str_in (map f a) (map f b) = str_in a b"
proof (induction b)
  case Nil
  then show ?case by simp
next
  case (Cons c b)
  have "starts_with (map f a) (map f (c # b)) = starts_with a (c # b)"
    using Cons.prems by (rule starts_with_map)
  with Cons show ?case by simp
qed

lemma str_in_codes: "str_in (codes a) (codes b) = str_in a b"
  unfolding codes_def by (rule str_in_map) (rule inj_of_char)

text \<open>\<open>lower\<close> works character by character; a run that spells a lower-case token becomes
  that token.\<close>

lemma lower_append: "lower (p @ m @ q) = lower p @ lower m @ lower q"
  by (simp add: lower_def)

lemma lower_spelled_aux:
  assumes "list_all2 (\<lambda>c t. same_ignoring_case (code c) t) m toks"
    and "\<forall>t \<in> set toks. t < 128 \<and> \<not> (65 \<le> t \<and> t \<le> 90)"
  shows "lower m = toks"
  using assms
proof (induction m toks rule: list_all2_induct)
  case Nil
  show ?case by (simp add: lower_def)
next
  case (Cons c m t toks)
  from Cons.prems have t: "t < 128" "\<not> (65 \<le> t \<and> t \<le> 90)"
    by simp_all
  from Cons.hyps(1) t have "lower_char c = [t]"
    by (auto simp: same_ignoring_case_def lower_char_def)
  moreover have "lower m = toks"
    using Cons.IH Cons.prems by simp
  ultimately show ?case by (simp add: lower_def)
qed

lemma lower_spelled:
  assumes "spelled m tok"
    and "\<forall>t \<in> set (codes tok). t < 128 \<and> \<not> (65 \<le> t \<and> t \<le> 90)"
  shows "lower m = codes tok"
proof -
  from assms(1) have "list_all2 (\<lambda>c t. same_ignoring_case (code c) t) m (codes tok)"
    by (simp add: spelled_def codes_def list_all2_map2)
  then show ?thesis using assms(2) by (rule lower_spelled_aux)
qed

lemma found_if_spelled:
  assumes "text = p @ m @ q" and "spelled m tok"
    and "\<forall>t \<in> set (codes tok). t < 128 \<and> \<not> (65 \<le> t \<and> t \<le> 90)"
  shows "str_in (codes tok) (lower text)"
proof -
  have "lower text = lower p @ codes tok @ lower q"
    using assms by (simp add: lower_append lower_spelled)
  then show ?thesis unfolding str_in_iff by blast
qed

text \<open>The tokens are written in lower case.\<close>

lemma tokens_lower_case:
  "\<forall>t \<in> set (codes ''avx512_vnni''). t < 128 \<and> \<not> (65 \<le> t \<and> t \<le> 90)"
  "\<forall>t \<in> set (codes ''avx512vnni''). t < 128 \<and> \<not> (65 \<le> t \<and> t \<le> 90)"
  "\<forall>t \<in> set (codes ''avx512_bf16''). t < 128 \<and> \<not> (65 \<le> t \<and> t \<le> 90)"
  "\<forall>t \<in> set (codes ''avx512bf16''). t < 128 \<and> \<not> (65 \<le> t \<and> t \<le> 90)"
  by (simp_all add: codes_def)

lemma check_cpuinfo_apply:
  "check_cpuinfo text fs k =
     (if k = ''avx512f'' \<and> str_in (codes ''avx512f'') (lower text)
         \<or> k = ''avx512_vnni''
             \<and> (str_in (codes ''avx512_vnni'') (lower text) \<or> str_in (codes ''avx512vnni'') (lower text))
         \<or> k = ''avx512_bf16''
             \<and> (str_in (codes ''avx512_bf16'') (lower text) \<or> str_in (codes ''avx512bf16'') (lower text))
         \<or> k = ''amx_bf16'' \<and> str_in (codes ''amx_bf16'') (lower text)
         \<or> k = ''amx_tile'' \<and> str_in (codes ''amx_tile'') (lower text)
         \<or> k = ''amx_int8'' \<and> str_in (codes ''amx_int8'') (lower text)
      then Some True else fs k)"
  by (simp add: check_cpuinfo_def Let_def)

lemma check_lscpu_apply:
  "check_lscpu text fs k =
     (if k = ''avx512f'' \<and> str_in (codes ''avx512f'') (lower text)
         \<or> k = ''avx512_vnni''
             \<and> (str_in (codes ''avx512_vnni'') (lower text) \<or> str_in (codes ''avx512vnni'') (lower text))
         \<or> k = ''avx512_bf16''
             \<and> (str_in (codes ''avx512_bf16'') (lower text) \<or> str_in (codes ''avx512bf16'') (lower text))
         \<or> k = ''amx_bf16'' \<and> str_in (codes ''amx_bf16'') (lower text)
      then Some True else fs k)"
  by (simp add: check_lscpu_def Let_def)

lemma merge_spec_idem: "merge_spec fs fs = fs"
  by (rule ext) (simp add: merge_spec_def get_truthy_def split: option.splits)

lemma merge_spec_commute: "merge_spec fs gs = merge_spec gs fs"
  by (rule ext) (auto simp add: merge_spec_def get_truthy_def split: option.splits)

lemma merge_spec_assoc: "merge_spec (merge_spec fs gs) hs = merge_spec fs (merge_spec gs hs)"
  by (rule ext) (auto simp add: merge_spec_def get_truthy_def split: option.splits)

lemma check_cpuinfo_merge: "check_cpuinfo text fs = merge_spec fs (check_cpuinfo text Map.empty)"
proof (rule ext)
  fix k
  define hit where "hit \<longleftrightarrow>
      k = ''avx512f'' \<and> str_in (codes ''avx512f'') (lower text)
    \<or> k = ''avx512_vnni''
        \<and> (str_in (codes ''avx512_vnni'') (lower text) \<or> str_in (codes ''avx512vnni'') (lower text))
    \<or> k = ''avx512_bf16''
        \<and> (str_in (codes ''avx512_bf16'') (lower text) \<or> str_in (codes ''avx512bf16'') (lower text))
    \<or> k = ''amx_bf16'' \<and> str_in (codes ''amx_bf16'') (lower text)
    \<or> k = ''amx_tile'' \<and> str_in (codes ''amx_tile'') (lower text)
    \<or> k = ''amx_int8'' \<and> str_in (codes ''amx_int8'') (lower text)"
  have at: "check_cpuinfo text gs k = (if hit then Some True else gs k)" for gs
    unfolding hit_def by (rule check_cpuinfo_apply)
  show "check_cpuinfo text fs k = merge_spec fs (check_cpuinfo text Map.empty) k"
    by (simp add: merge_spec_def get_truthy_def at split: option.splits)
qed

lemma check_lscpu_merge: "check_lscpu text fs = merge_spec fs (check_lscpu text Map.empty)"
proof (rule ext)
  fix k
  define hit where "hit \<longleftrightarrow>
      k = ''avx512f'' \<and> str_in (codes ''avx512f'') (lower text)
    \<or> k = ''avx512_vnni''
        \<and> (str_in (codes ''avx512_vnni'') (lower text) \<or> str_in (codes ''avx512vnni'') (lower text))
    \<or> k = ''avx512_bf16''
        \<and> (str_in (codes ''avx512_bf16'') (lower text) \<or> str_in (codes ''avx512bf16'') (lower text))
    \<or> k = ''amx_bf16'' \<and> str_in (codes ''amx_bf16'') (lower text)"
  have at: "check_lscpu text gs k = (if hit then Some True else gs k)" for gs
    unfolding hit_def by (rule check_lscpu_apply)
  show "check_lscpu text fs k = merge_spec fs (check_lscpu text Map.empty) k"
    by (simp add: merge_spec_def get_truthy_def at split: option.splits)
qed

lemma check_cpuinfo_twice: "check_cpuinfo text (check_cpuinfo text fs) = check_cpuinfo text fs"
proof -
  let ?r = "check_cpuinfo text Map.empty"
  have "check_cpuinfo text (check_cpuinfo text fs) = merge_spec (merge_spec fs ?r) ?r"
    using check_cpuinfo_merge by metis
  also have "\<dots> = merge_spec fs ?r"
    by (simp add: merge_spec_assoc merge_spec_idem)
  finally show ?thesis using check_cpuinfo_merge by metis
qed

lemma check_lscpu_twice: "check_lscpu text (check_lscpu text fs) = check_lscpu text fs"
proof -
  let ?r = "check_lscpu text Map.empty"
  have "check_lscpu text (check_lscpu text fs) = merge_spec (merge_spec fs ?r) ?r"
    using check_lscpu_merge by metis
  also have "\<dots> = merge_spec fs ?r"
    by (simp add: merge_spec_assoc merge_spec_idem)
  finally show ?thesis using check_lscpu_merge by metis
qed

lemma check_swap: "check_cpuinfo t (check_lscpu u fs) = check_lscpu u (check_cpuinfo t fs)"
proof -
  let ?c = "check_cpuinfo t Map.empty" and ?l = "check_lscpu u Map.empty"
  have "check_cpuinfo t (check_lscpu u fs) = merge_spec (merge_spec fs ?l) ?c"
    using check_cpuinfo_merge check_lscpu_merge by metis
  also have "\<dots> = merge_spec fs (merge_spec ?l ?c)"
    by (simp add: merge_spec_assoc)
  also have "\<dots> = merge_spec fs (merge_spec ?c ?l)"
    using merge_spec_commute by metis
  also have "\<dots> = merge_spec (merge_spec fs ?c) ?l"
    by (simp add: merge_spec_assoc)
  finally show ?thesis using check_cpuinfo_merge check_lscpu_merge by metis
qed

text \<open>The texts of the examples below, in lower case.\<close>

lemma lower_examples:
  "lower (asc ''flags : fpu vme sse sse2 avx avx2'') = codes ''flags : fpu vme sse sse2 avx avx2''"
  "lower (asc ''flags : fpu sse'') = codes ''flags : fpu sse''"
  "lower (asc ''Flags: amx_tile amx_int8'') = codes ''flags: amx_tile amx_int8''"
  "lower (asc ''Flags: avx512f'') = codes ''flags: avx512f''"
  "lower (asc ''flags : fpu AVX512F amx_tile'') = codes ''flags : fpu avx512f amx_tile''"
  "lower (asc ''Flags: avx512vnni amx_int8'') = codes ''flags: avx512vnni amx_int8''"
  "lower (asc ''hw.optional.avx512f: 1'') = codes ''hw.optional.avx512f: 1''"
  by (simp_all add: lower_def lower_char_def asc_def codes_def)

text \<open>\<open>str.lower\<close> makes two code points of U+0130, the first of them the letter \<open>i\<close>:
  the text \<open>AVX512_VNN\<close> followed by U+0130 sets \<open>avx512_vnni\<close>.\<close>

lemma lower_dotted_capital_i:
  "lower (asc ''AVX512_VNN'' @ [PyChar 0x130 [0x69, 0x307]]) = codes ''avx512_vnni'' @ [0x307]"
  by (simp add: lower_def lower_char_def asc_def codes_def)

lemma check_cpuinfo_dotted_capital_i:
  "check_cpuinfo (asc ''AVX512_VNN'' @ [PyChar 0x130 [0x69, 0x307]]) linux_features
     ''avx512_vnni'' = Some True"
proof -
  have "str_in (codes ''avx512_vnni'') (codes ''avx512_vnni'' @ [0x307])"
    unfolding str_in_iff by (metis append_Nil)
  then show ?thesis
    by (simp add: check_cpuinfo_apply lower_dotted_capital_i)
qed

text \<open>The report of the example host: no line of its \<open>/proc/cpuinfo\<close> starts with
  \<open>model name\<close>.\<close>

lemma print_report_example:
  "print_report \<lparr>system = ''Linux'', machine = ''x86_64'', processor = asc ''x86_64'',
       cpuinfo = FileText (asc ''flags : fpu vme sse sse2 avx avx2''),
       lscpu = CommandNotFound, sysctl = CommandNotFound\<rparr> = Inr ()"
  by code_simp

lemma macos_features_avx512f:
  "macos_features(''avx512f'' \<mapsto> True)
     = [''avx512f'' \<mapsto> True, ''avx512_vnni'' \<mapsto> False, ''avx512_bf16'' \<mapsto> False,
        ''amx_bf16'' \<mapsto> False]"
  by (rule ext) (simp add: macos_features_def)

lemma detect_linux_has_key:
  assumes "detect_linux src r = Inr fs"
  shows "fs ''avx512f'' \<noteq> None"
proof -
  have c: "check_cpuinfo t gs ''avx512f'' \<noteq> None" if "gs ''avx512f'' \<noteq> None" for t gs
    using that by (auto simp add: check_cpuinfo_apply)
  have l: "check_lscpu t gs ''avx512f'' \<noteq> None" if "gs ''avx512f'' \<noteq> None" for t gs
    using that by (auto simp add: check_lscpu_apply)
  have i: "linux_features ''avx512f'' \<noteq> None"
    by (simp add: linux_features_def)
  obtain gs where gs: "try_cpuinfo src linux_features = Inr gs" and fs: "try_lscpu r gs = Inr fs"
    using assms by (auto simp: detect_linux_def split: sum.splits)
  from gs have "gs ''avx512f'' \<noteq> None"
    using c [of linux_features] i by (cases src) auto
  with fs show ?thesis
    using l by (cases r) (auto split: if_splits)
qed

lemma detect_macos_has_key:
  assumes "detect_macos r = Inr fs"
  shows "fs ''avx512f'' \<noteq> None"
  using assms by (cases r) (auto simp: macos_features_def Let_def split: if_splits)

text \<open>The exit code of \<open>main\<close> in terms of the two platform strings: every branch of
  \<open>detect\<close> for a supported system leaves a dictionary with keys.\<close>

lemma main_exit_code:
  assumes "detect h = Inr fs" and "print_report h = Inr u"
  shows "main h = Inr (if system h = ''Linux'' \<or> system h = ''Darwin'' \<or> system h = ''Windows''
                    \<or> machine h = ''aarch64'' \<or> machine h = ''arm64'' then 0 else 1)"
proof -
  have m: "main h = Inr (if fs \<noteq> Map.empty \<or> machine h = ''aarch64'' \<or> machine h = ''arm64''
                          then 0 else 1)"
    using assms by (simp add: main_def)
  note assms = assms(1)
  consider (linux) "system h = ''Linux''"
    | (darwin) "system h \<noteq> ''Linux''" "system h = ''Darwin''"
    | (windows) "system h \<noteq> ''Linux''" "system h \<noteq> ''Darwin''" "system h = ''Windows''"
    | (other) "system h \<noteq> ''Linux''" "system h \<noteq> ''Darwin''" "system h \<noteq> ''Windows''"
    by blast
  then show ?thesis
  proof cases
    case linux
    then have "detect_linux (cpuinfo h) (lscpu h) = Inr fs"
      using assms by (simp add: detect_def)
    then have "fs ''avx512f'' \<noteq> None" by (rule detect_linux_has_key)
    then have "fs \<noteq> Map.empty" by auto
    with m linux show ?thesis by simp
  next
    case darwin
    then have "detect_macos (sysctl h) = Inr fs"
      using assms by (simp add: detect_def)
    then have "fs ''avx512f'' \<noteq> None" by (rule detect_macos_has_key)
    then have "fs \<noteq> Map.empty" by auto
    with m darwin show ?thesis by simp
  next
    case windows
    then have "fs ''avx512f'' \<noteq> None"
      using assms by (auto simp: detect_def detect_windows_def)
    then have "fs \<noteq> Map.empty" by auto
    with m windows show ?thesis by simp
  next
    case other
    then have "fs = Map.empty"
      using assms by (simp add: detect_def)
    with m other show ?thesis by simp
  qed
qed

section \<open>The recommendation\<close>

text \<open>
  C2. On \<open>x86_64\<close> the tiers are tried from the most demanding down and the first one
  whose flags are all true gives the package: \<open>vllm-cpu-amxbf16\<close> for \<open>amx_bf16\<close>,
  \<open>avx512_bf16\<close> and \<open>avx512_vnni\<close>; else \<open>vllm-cpu-avx512bf16\<close> for \<open>avx512_bf16\<close> and
  \<open>avx512_vnni\<close>; else \<open>vllm-cpu-avx512vnni\<close> for \<open>avx512_vnni\<close>; else
  \<open>vllm-cpu-avx512\<close> for \<open>avx512f\<close>; else \<open>vllm-cpu\<close>. A flag counts as true when the
  dictionary maps it to \<open>True\<close>; the dictionary is arbitrary.
\<close>

theorem recommend_package_x86_64_tiers:
  "recommend_package ''x86_64'' fs =
     (if fs ''amx_bf16'' = Some True \<and> fs ''avx512_bf16'' = Some True
           \<and> fs ''avx512_vnni'' = Some True then ''vllm-cpu-amxbf16''
      else if fs ''avx512_bf16'' = Some True \<and> fs ''avx512_vnni'' = Some True
        then ''vllm-cpu-avx512bf16''
      else if fs ''avx512_vnni'' = Some True then ''vllm-cpu-avx512vnni''
      else if fs ''avx512f'' = Some True then ''vllm-cpu-avx512''
      else ''vllm-cpu'')"
  by (simp add: recommend_package_def get_truthy_def split: option.splits)

text \<open>
  C3. On an ARM-family architecture (\<open>aarch64\<close> or \<open>arm64\<close>) the recommendation is the
  base package \<open>vllm-cpu\<close>, whatever the feature dictionary holds.
\<close>

theorem recommend_package_arm_base:
  "arch = ''aarch64'' \<or> arch = ''arm64'' \<Longrightarrow> recommend_package arch fs = ''vllm-cpu''"
  by (auto simp add: recommend_package_def)

theorem recommend_package_arm_base_witness:
  "(''arm64'' = ''aarch64'' \<or> ''arm64'' = ''arm64'')
   \<and> recommend_package ''arm64''
        [''avx512f'' \<mapsto> True, ''avx512_vnni'' \<mapsto> True, ''avx512_bf16'' \<mapsto> True,
         ''amx_bf16'' \<mapsto> True] = ''vllm-cpu''"
  using recommend_package_arm_base [of "''arm64''"
      "[''avx512f'' \<mapsto> True, ''avx512_vnni'' \<mapsto> True, ''avx512_bf16'' \<mapsto> True,
        ''amx_bf16'' \<mapsto> True]"]
  by simp

text \<open>
  C4. For every architecture string and every feature dictionary the recommendation is
  one of the five package identifiers of the catalog: \<open>vllm-cpu\<close>, \<open>vllm-cpu-avx512\<close>,
  \<open>vllm-cpu-avx512vnni\<close>, \<open>vllm-cpu-avx512bf16\<close>, \<open>vllm-cpu-amxbf16\<close>.
\<close>

theorem recommend_package_in_catalog:
  "recommend_package arch fs \<in> set (map fst packages)
   \<and> set (map fst packages) =
       {''vllm-cpu'', ''vllm-cpu-avx512'', ''vllm-cpu-avx512vnni'', ''vllm-cpu-avx512bf16'',
        ''vllm-cpu-amxbf16''}"
  by (simp add: recommend_package_def packages_def)

text \<open>
  C10. The flags \<open>amx_tile\<close> and \<open>amx_int8\<close> do not influence the recommendation: two
  feature dictionaries that agree on \<open>avx512f\<close>, \<open>avx512_vnni\<close>, \<open>avx512_bf16\<close> and
  \<open>amx_bf16\<close> get the same package on every architecture.
\<close>

theorem recommend_package_ignores_amx_tile_int8:
  assumes "fs ''avx512f'' = gs ''avx512f''"
    and "fs ''avx512_vnni'' = gs ''avx512_vnni''"
    and "fs ''avx512_bf16'' = gs ''avx512_bf16''"
    and "fs ''amx_bf16'' = gs ''amx_bf16''"
  shows "recommend_package arch fs = recommend_package arch gs"
  using assms by (simp add: recommend_package_def get_truthy_def)

theorem recommend_package_ignores_amx_tile_int8_witness:
  "recommend_package ''x86_64''
     [''avx512f'' \<mapsto> True, ''avx512_vnni'' \<mapsto> True, ''avx512_bf16'' \<mapsto> False,
      ''amx_bf16'' \<mapsto> False, ''amx_tile'' \<mapsto> True, ''amx_int8'' \<mapsto> True]
   = recommend_package ''x86_64''
     [''avx512f'' \<mapsto> True, ''avx512_vnni'' \<mapsto> True, ''avx512_bf16'' \<mapsto> False,
      ''amx_bf16'' \<mapsto> False, ''amx_tile'' \<mapsto> False, ''amx_int8'' \<mapsto> False]"
  by (rule recommend_package_ignores_amx_tile_int8) simp_all

section \<open>The probes\<close>

text \<open>
  C5. Claimed: in the Linux probe each of the six flags ends up true if the text of
  \<open>/proc/cpuinfo\<close> or the output of \<open>lscpu\<close> contains one of its spellings, the output of
  \<open>lscpu\<close> being searched like the first source. The code differs in two places: the
  tests on the output of \<open>lscpu\<close> cover four flags (not \<open>amx_tile\<close> and \<open>amx_int8\<close>), and
  they run only when \<open>lscpu\<close> returned the code 0. Both are shown at concrete inputs.
\<close>

theorem detect_linux_lscpu_counterexample:
  "str_in (codes ''amx_tile'') (lower (asc ''Flags: amx_tile amx_int8''))
   \<and> detect_linux (FileText (asc ''flags : fpu sse'')) (Completed 0 (asc ''Flags: amx_tile amx_int8''))
       = Inr [''avx512f'' \<mapsto> False, ''avx512_vnni'' \<mapsto> False, ''avx512_bf16'' \<mapsto> False,
              ''amx_bf16'' \<mapsto> False, ''amx_tile'' \<mapsto> False, ''amx_int8'' \<mapsto> False]
   \<and> str_in (codes ''avx512f'') (lower (asc ''Flags: avx512f''))
   \<and> detect_linux (FileText (asc ''flags : fpu sse'')) (Completed 1 (asc ''Flags: avx512f''))
       = Inr [''avx512f'' \<mapsto> False, ''avx512_vnni'' \<mapsto> False, ''avx512_bf16'' \<mapsto> False,
              ''amx_bf16'' \<mapsto> False, ''amx_tile'' \<mapsto> False, ''amx_int8'' \<mapsto> False]"
  by (simp add: detect_linux_def check_cpuinfo_def check_lscpu_def linux_features_def
      lower_examples str_in_codes)

text \<open>
  C5, as amended. When \<open>/proc/cpuinfo\<close> was read and \<open>lscpu\<close> completed, each of the four
  flags \<open>avx512f\<close>, \<open>avx512_vnni\<close>, \<open>avx512_bf16\<close>, \<open>amx_bf16\<close> is true exactly when the
  lower-cased text of \<open>/proc/cpuinfo\<close> contains one of its spellings, or \<open>lscpu\<close> returned 0
  and its lower-cased output contains one; \<open>amx_tile\<close> and \<open>amx_int8\<close> are true if the text
  of \<open>/proc/cpuinfo\<close> contains them; and every flag that the first source set is still set
  at the end.
\<close>

theorem detect_linux_flagwise_or:
  "\<exists>fs. detect_linux (FileText text) (Completed rc out) = Inr fs
     \<and> fs ''avx512f'' =
         Some (str_in (codes ''avx512f'') (lower text) \<or> rc = 0 \<and> str_in (codes ''avx512f'') (lower out))
     \<and> fs ''avx512_vnni'' =
         Some ((str_in (codes ''avx512_vnni'') (lower text) \<or> str_in (codes ''avx512vnni'') (lower text))
               \<or> rc = 0
                 \<and> (str_in (codes ''avx512_vnni'') (lower out) \<or> str_in (codes ''avx512vnni'') (lower out)))
     \<and> fs ''avx512_bf16'' =
         Some ((str_in (codes ''avx512_bf16'') (lower text) \<or> str_in (codes ''avx512bf16'') (lower text))
               \<or> rc = 0
                 \<and> (str_in (codes ''avx512_bf16'') (lower out) \<or> str_in (codes ''avx512bf16'') (lower out)))
     \<and> fs ''amx_bf16'' =
         Some (str_in (codes ''amx_bf16'') (lower text) \<or> rc = 0 \<and> str_in (codes ''amx_bf16'') (lower out))
     \<and> (str_in (codes ''amx_tile'') (lower text) \<longrightarrow> fs ''amx_tile'' = Some True)
     \<and> (str_in (codes ''amx_int8'') (lower text) \<longrightarrow> fs ''amx_int8'' = Some True)
     \<and> (\<forall>k. check_cpuinfo text linux_features k = Some True \<longrightarrow> fs k = Some True)"
proof -
  let ?c = "check_cpuinfo text linux_features"
  let ?fs = "if rc = 0 then check_lscpu out ?c else ?c"
  have run: "detect_linux (FileText text) (Completed rc out) = Inr ?fs"
    by (simp add: detect_linux_def)
  have keep: "?c k = Some True \<longrightarrow> ?fs k = Some True" for k
    by (simp add: check_lscpu_apply)
  have c1: "?c ''avx512f'' = Some (str_in (codes ''avx512f'') (lower text))"
    by (simp add: check_cpuinfo_apply linux_features_def)
  have c2: "?c ''avx512_vnni''
      = Some (str_in (codes ''avx512_vnni'') (lower text) \<or> str_in (codes ''avx512vnni'') (lower text))"
    by (simp add: check_cpuinfo_apply linux_features_def)
  have c3: "?c ''avx512_bf16''
      = Some (str_in (codes ''avx512_bf16'') (lower text) \<or> str_in (codes ''avx512bf16'') (lower text))"
    by (simp add: check_cpuinfo_apply linux_features_def)
  have c4: "?c ''amx_bf16'' = Some (str_in (codes ''amx_bf16'') (lower text))"
    by (simp add: check_cpuinfo_apply linux_features_def)
  have c5: "?c ''amx_tile'' = Some (str_in (codes ''amx_tile'') (lower text))"
    by (simp add: check_cpuinfo_apply linux_features_def)
  have c6: "?c ''amx_int8'' = Some (str_in (codes ''amx_int8'') (lower text))"
    by (simp add: check_cpuinfo_apply linux_features_def)
  have f1: "?fs ''avx512f'' =
         Some (str_in (codes ''avx512f'') (lower text) \<or> rc = 0 \<and> str_in (codes ''avx512f'') (lower out))"
    by (simp add: check_lscpu_apply c1)
  have f2: "?fs ''avx512_vnni'' =
         Some ((str_in (codes ''avx512_vnni'') (lower text) \<or> str_in (codes ''avx512vnni'') (lower text))
               \<or> rc = 0
                 \<and> (str_in (codes ''avx512_vnni'') (lower out) \<or> str_in (codes ''avx512vnni'') (lower out)))"
    by (simp add: check_lscpu_apply c2)
  have f3: "?fs ''avx512_bf16'' =
         Some ((str_in (codes ''avx512_bf16'') (lower text) \<or> str_in (codes ''avx512bf16'') (lower text))
               \<or> rc = 0
                 \<and> (str_in (codes ''avx512_bf16'') (lower out) \<or> str_in (codes ''avx512bf16'') (lower out)))"
    by (simp add: check_lscpu_apply c3)
  have f4: "?fs ''amx_bf16'' =
         Some (str_in (codes ''amx_bf16'') (lower text) \<or> rc = 0 \<and> str_in (codes ''amx_bf16'') (lower out))"
    by (simp add: check_lscpu_apply c4)
  have f5: "str_in (codes ''amx_tile'') (lower text) \<longrightarrow> ?fs ''amx_tile'' = Some True"
    using keep [of "''amx_tile''"] by (simp only: c5) simp
  have f6: "str_in (codes ''amx_int8'') (lower text) \<longrightarrow> ?fs ''amx_int8'' = Some True"
    using keep [of "''amx_int8''"] by (simp only: c6) simp
  from run f1 f2 f3 f4 f5 f6 keep show ?thesis by blast
qed

theorem detect_linux_flagwise_or_witness:
  "str_in (codes ''amx_tile'') (lower (asc ''flags : fpu AVX512F amx_tile''))
   \<and> (\<exists>fs. detect_linux (FileText (asc ''flags : fpu AVX512F amx_tile''))
              (Completed 0 (asc ''Flags: avx512vnni amx_int8'')) = Inr fs
        \<and> fs ''avx512f'' = Some True \<and> fs ''avx512_vnni'' = Some True
        \<and> fs ''avx512_bf16'' = Some False \<and> fs ''amx_bf16'' = Some False
        \<and> fs ''amx_tile'' = Some True)"
proof -
  let ?t = "asc ''flags : fpu AVX512F amx_tile''" and ?o = "asc ''Flags: avx512vnni amx_int8''"
  have tile: "str_in (codes ''amx_tile'') (lower ?t)"
    by (simp add: lower_examples str_in_codes)
  obtain fs where run: "detect_linux (FileText ?t) (Completed 0 ?o) = Inr fs"
    and f1: "fs ''avx512f'' =
         Some (str_in (codes ''avx512f'') (lower ?t) \<or> (0::int) = 0 \<and> str_in (codes ''avx512f'') (lower ?o))"
    and f2: "fs ''avx512_vnni'' =
         Some ((str_in (codes ''avx512_vnni'') (lower ?t) \<or> str_in (codes ''avx512vnni'') (lower ?t))
               \<or> (0::int) = 0
                 \<and> (str_in (codes ''avx512_vnni'') (lower ?o) \<or> str_in (codes ''avx512vnni'') (lower ?o)))"
    and f3: "fs ''avx512_bf16'' =
         Some ((str_in (codes ''avx512_bf16'') (lower ?t) \<or> str_in (codes ''avx512bf16'') (lower ?t))
               \<or> (0::int) = 0
                 \<and> (str_in (codes ''avx512_bf16'') (lower ?o) \<or> str_in (codes ''avx512bf16'') (lower ?o)))"
    and f4: "fs ''amx_bf16'' =
         Some (str_in (codes ''amx_bf16'') (lower ?t) \<or> (0::int) = 0 \<and> str_in (codes ''amx_bf16'') (lower ?o))"
    and f5: "str_in (codes ''amx_tile'') (lower ?t) \<longrightarrow> fs ''amx_tile'' = Some True"
    using detect_linux_flagwise_or [of ?t 0 ?o] by blast
  have "fs ''avx512f'' = Some True" using f1 by (simp add: lower_examples str_in_codes)
  moreover have "fs ''avx512_vnni'' = Some True" using f2 by (simp add: lower_examples str_in_codes)
  moreover have "fs ''avx512_bf16'' = Some False" using f3 by (simp add: lower_examples str_in_codes)
  moreover have "fs ''amx_bf16'' = Some False" using f4 by (simp add: lower_examples str_in_codes)
  moreover have "fs ''amx_tile'' = Some True" using f5 tile by blast
  ultimately show ?thesis using run tile by blast
qed

text \<open>
  C6. Claimed: on Linux, when \<open>/proc/cpuinfo\<close> cannot be read and \<open>lscpu\<close> is missing or
  times out, detection returns six false flags and no error escapes. The first \<open>try\<close>
  block catches \<open>FileNotFoundError\<close> only: when reading the file fails in another way, as
  with \<open>PermissionError\<close>, the exception leaves \<open>_detect_linux\<close>.
\<close>

theorem detect_linux_unreadable_counterexample:
  "detect_linux (FileRaises PermissionError) CommandNotFound = Inl PermissionError"
  by (simp add: detect_linux_def)

text \<open>
  C6, as amended. On Linux, when \<open>/proc/cpuinfo\<close> is missing (opening it raises
  \<open>FileNotFoundError\<close>, which the source reports as "Could not read /proc/cpuinfo") and
  \<open>lscpu\<close> is missing or times out, \<open>_detect_linux\<close> returns normally and all six flags of
  the result are false.
\<close>

theorem detect_linux_sources_fail:
  "detect_linux FileNotFoundError CommandNotFound
     = Inr [''avx512f'' \<mapsto> False, ''avx512_vnni'' \<mapsto> False, ''avx512_bf16'' \<mapsto> False,
            ''amx_bf16'' \<mapsto> False, ''amx_tile'' \<mapsto> False, ''amx_int8'' \<mapsto> False]
   \<and> detect_linux FileNotFoundError TimeoutExpired
     = Inr [''avx512f'' \<mapsto> False, ''avx512_vnni'' \<mapsto> False, ''avx512_bf16'' \<mapsto> False,
            ''amx_bf16'' \<mapsto> False, ''amx_tile'' \<mapsto> False, ''amx_int8'' \<mapsto> False]"
  by (simp add: detect_linux_def linux_features_def)

text \<open>
  C7. The search in the text of \<open>/proc/cpuinfo\<close> is a substring search that ignores case.
  Starting from the all-false dictionary, \<open>avx512_vnni\<close> is set to true exactly when the
  lower-cased text contains \<open>avx512_vnni\<close> or \<open>avx512vnni\<close>, and \<open>avx512_bf16\<close> exactly when
  it contains \<open>avx512_bf16\<close> or \<open>avx512bf16\<close>. Whenever a run of characters of the text
  spells one of the two tokens of a flag in any mix of upper and lower case, the flag is
  set. This dictionary is the result of \<open>_detect_linux\<close> when \<open>lscpu\<close> is not installed.
\<close>

theorem cpuinfo_token_matching:
  "detect_linux (FileText text) CommandNotFound = Inr (check_cpuinfo text linux_features)
   \<and> check_cpuinfo text linux_features ''avx512_vnni''
     = Some (str_in (codes ''avx512_vnni'') (lower text)
             \<or> str_in (codes ''avx512vnni'') (lower text))
   \<and> check_cpuinfo text linux_features ''avx512_bf16''
     = Some (str_in (codes ''avx512_bf16'') (lower text)
             \<or> str_in (codes ''avx512bf16'') (lower text))
   \<and> (\<forall>p m q. text = p @ m @ q \<and> (spelled m ''avx512_vnni'' \<or> spelled m ''avx512vnni'')
         \<longrightarrow> check_cpuinfo text linux_features ''avx512_vnni'' = Some True)
   \<and> (\<forall>p m q. text = p @ m @ q \<and> (spelled m ''avx512_bf16'' \<or> spelled m ''avx512bf16'')
         \<longrightarrow> check_cpuinfo text linux_features ''avx512_bf16'' = Some True)"
proof -
  have r: "detect_linux (FileText text) CommandNotFound = Inr (check_cpuinfo text linux_features)"
    by (simp add: detect_linux_def)
  have a: "check_cpuinfo text linux_features ''avx512_vnni''
     = Some (str_in (codes ''avx512_vnni'') (lower text)
             \<or> str_in (codes ''avx512vnni'') (lower text))"
    by (simp add: check_cpuinfo_apply linux_features_def)
  have b: "check_cpuinfo text linux_features ''avx512_bf16''
     = Some (str_in (codes ''avx512_bf16'') (lower text)
             \<or> str_in (codes ''avx512bf16'') (lower text))"
    by (simp add: check_cpuinfo_apply linux_features_def)
  have c: "check_cpuinfo text linux_features ''avx512_vnni'' = Some True"
    if "text = p @ m @ q" and "spelled m ''avx512_vnni'' \<or> spelled m ''avx512vnni''" for p m q
  proof -
    from that have "str_in (codes ''avx512_vnni'') (lower text)
        \<or> str_in (codes ''avx512vnni'') (lower text)"
      using found_if_spelled [OF that(1) _ tokens_lower_case(1)]
        found_if_spelled [OF that(1) _ tokens_lower_case(2)] by blast
    then show ?thesis by (simp add: a)
  qed
  have d: "check_cpuinfo text linux_features ''avx512_bf16'' = Some True"
    if "text = p @ m @ q" and "spelled m ''avx512_bf16'' \<or> spelled m ''avx512bf16''" for p m q
  proof -
    from that have "str_in (codes ''avx512_bf16'') (lower text)
        \<or> str_in (codes ''avx512bf16'') (lower text)"
      using found_if_spelled [OF that(1) _ tokens_lower_case(3)]
        found_if_spelled [OF that(1) _ tokens_lower_case(4)] by blast
    then show ?thesis by (simp add: b)
  qed
  from r a b c d show ?thesis by blast
qed

theorem cpuinfo_token_matching_witness:
  "spelled (asc ''AVX512_VNNI'') ''avx512_vnni''
   \<and> spelled (asc ''Avx512BF16'') ''avx512bf16''
   \<and> check_cpuinfo (asc ''flags : fpu AVX512_VNNI Avx512BF16'') linux_features
        ''avx512_vnni'' = Some True
   \<and> check_cpuinfo (asc ''flags : fpu AVX512_VNNI Avx512BF16'') linux_features
        ''avx512_bf16'' = Some True"
proof -
  let ?text = "asc ''flags : fpu AVX512_VNNI Avx512BF16''"
  have s1: "spelled (asc ''AVX512_VNNI'') ''avx512_vnni''"
    by (simp add: spelled_def asc_def same_ignoring_case_def)
  have s2: "spelled (asc ''Avx512BF16'') ''avx512bf16''"
    by (simp add: spelled_def asc_def same_ignoring_case_def)
  have t1: "?text = asc ''flags : fpu '' @ asc ''AVX512_VNNI'' @ asc '' Avx512BF16''"
    by (simp add: asc_def)
  have t2: "?text = asc ''flags : fpu AVX512_VNNI '' @ asc ''Avx512BF16'' @ []"
    by (simp add: asc_def)
  note all = cpuinfo_token_matching [of ?text]
  from all t1 s1 have "check_cpuinfo ?text linux_features ''avx512_vnni'' = Some True"
    by blast
  moreover from all t2 s2 have "check_cpuinfo ?text linux_features ''avx512_bf16'' = Some True"
    by blast
  ultimately show ?thesis using s1 s2 by blast
qed

text \<open>
  C8. Claimed: on macOS \<open>avx512f\<close> is set exactly when the lower-cased output of
  \<open>sysctl -a\<close> contains \<open>avx512\<close>. The output is looked at only when the return code is 0:
  with the return code 1 an output that contains the token leaves \<open>avx512f\<close> false.
\<close>

theorem detect_macos_counterexample:
  "str_in (codes ''avx512'') (lower (asc ''hw.optional.avx512f: 1''))
   \<and> detect_macos (Completed 1 (asc ''hw.optional.avx512f: 1''))
       = Inr [''avx512f'' \<mapsto> False, ''avx512_vnni'' \<mapsto> False, ''avx512_bf16'' \<mapsto> False,
              ''amx_bf16'' \<mapsto> False]"
  by (simp add: macos_features_def lower_examples str_in_codes)

text \<open>
  C8, as amended. The macOS probe never sets \<open>avx512_vnni\<close>, \<open>avx512_bf16\<close> or \<open>amx_bf16\<close>:
  for every return code and output of \<open>sysctl -a\<close> they are false, and \<open>avx512f\<close> is true
  exactly when the return code is 0 and the lower-cased output contains \<open>avx512\<close>. When
  the command times out or is missing all four flags are false.
\<close>

theorem detect_macos_flags:
  "detect_macos (Completed rc out)
     = Inr [''avx512f'' \<mapsto> (rc = 0 \<and> str_in (codes ''avx512'') (lower out)),
            ''avx512_vnni'' \<mapsto> False, ''avx512_bf16'' \<mapsto> False, ''amx_bf16'' \<mapsto> False]
   \<and> detect_macos TimeoutExpired
     = Inr [''avx512f'' \<mapsto> False, ''avx512_vnni'' \<mapsto> False, ''avx512_bf16'' \<mapsto> False,
            ''amx_bf16'' \<mapsto> False]
   \<and> detect_macos CommandNotFound
     = Inr [''avx512f'' \<mapsto> False, ''avx512_vnni'' \<mapsto> False, ''avx512_bf16'' \<mapsto> False,
            ''amx_bf16'' \<mapsto> False]"
proof -
  have "detect_macos (Completed rc out)
     = Inr [''avx512f'' \<mapsto> (rc = 0 \<and> str_in (codes ''avx512'') (lower out)),
            ''avx512_vnni'' \<mapsto> False, ''avx512_bf16'' \<mapsto> False, ''amx_bf16'' \<mapsto> False]"
  proof (cases "rc = 0 \<and> str_in (codes ''avx512'') (lower out)")
    case True
    then show ?thesis by (simp add: macos_features_avx512f)
  next
    case False
    then have no: "(rc = 0 \<and> str_in (codes ''avx512'') (lower out)) = False"
      by blast
    from False have "detect_macos (Completed rc out) = Inr macos_features"
      by auto
    then show ?thesis
      unfolding no by (simp add: macos_features_def)
  qed
  then show ?thesis by (simp add: macos_features_def)
qed

text \<open>
  C9. The flag-wise or of feature sets is idempotent, commutative and associative. What
  a data source does to the dictionary is this merge with the flags the source reports
  (the result of the same scan on the empty dictionary), so a scan done twice is the scan
  done once, and the two scans of the Linux probe give the same dictionary in either
  order.
\<close>

theorem merge_laws:
  "merge_spec fs fs = fs
   \<and> merge_spec fs gs = merge_spec gs fs
   \<and> merge_spec (merge_spec fs gs) hs = merge_spec fs (merge_spec gs hs)
   \<and> check_cpuinfo t fs = merge_spec fs (check_cpuinfo t Map.empty)
   \<and> check_lscpu u fs = merge_spec fs (check_lscpu u Map.empty)
   \<and> check_cpuinfo t (check_cpuinfo t fs) = check_cpuinfo t fs
   \<and> check_lscpu u (check_lscpu u fs) = check_lscpu u fs
   \<and> check_cpuinfo t (check_lscpu u fs) = check_lscpu u (check_cpuinfo t fs)"
  by (intro conjI merge_spec_idem merge_spec_commute merge_spec_assoc check_cpuinfo_merge
      check_lscpu_merge check_cpuinfo_twice check_lscpu_twice check_swap)

section \<open>The exit code\<close>

text \<open>
  C1. Claimed: the exit code is 0 exactly when some flag was detected as true or the
  architecture is \<open>aarch64\<close> or \<open>arm64\<close>; in particular it is 1 on \<open>x86_64\<close> with no flag
  detected. \<open>main\<close> tests the dictionary itself, which is true as soon as it has a key:
  on Linux and \<open>x86_64\<close>, with a \<open>/proc/cpuinfo\<close> that names none of the tokens and no
  \<open>lscpu\<close>, all six flags are false and the exit code is 0.
\<close>

theorem main_exit_linux_x86_64_no_flags:
  "detect \<lparr>system = ''Linux'', machine = ''x86_64'', processor = asc ''x86_64'',
            cpuinfo = FileText (asc ''flags : fpu vme sse sse2 avx avx2''),
            lscpu = CommandNotFound, sysctl = CommandNotFound\<rparr>
     = Inr [''avx512f'' \<mapsto> False, ''avx512_vnni'' \<mapsto> False, ''avx512_bf16'' \<mapsto> False,
            ''amx_bf16'' \<mapsto> False, ''amx_tile'' \<mapsto> False, ''amx_int8'' \<mapsto> False]
   \<and> main \<lparr>system = ''Linux'', machine = ''x86_64'', processor = asc ''x86_64'',
            cpuinfo = FileText (asc ''flags : fpu vme sse sse2 avx avx2''),
            lscpu = CommandNotFound, sysctl = CommandNotFound\<rparr> = Inr 0"
  by (simp add: main_def detect_def detect_linux_def check_cpuinfo_def linux_features_def
      print_report_example lower_examples str_in_codes)

text \<open>At this input the exit code is therefore not the warning status.\<close>

theorem main_exit_linux_x86_64_no_flags_witness:
  "main \<lparr>system = ''Linux'', machine = ''x86_64'', processor = asc ''x86_64'',
          cpuinfo = FileText (asc ''flags : fpu vme sse sse2 avx avx2''),
          lscpu = CommandNotFound, sysctl = CommandNotFound\<rparr> \<noteq> Inr 1"
  using main_exit_linux_x86_64_no_flags by simp

end
